theory Spec2Isabelle
  imports
    Complex_Main
    "HOL-Library.Char_ord"
    "HOL-Library.List_Lexorder"
    "HOL-Library.Product_Lexorder"
begin

section \<open>Numbers, errors and the outside world\<close>

subsection \<open>Column values\<close>

text \<open>
  Numeric columns of the data frames are 64-bit floats. The model keeps the four kinds of
  value a float can be and computes finite values exactly (as rationals): rounding and the
  sign of zero are left out, the special values and their arithmetic are kept, since
  \<^verbatim>\<open>NaN\<close> is how every table of the program marks a missing cell.
\<close>

datatype float64 = Fin rat | PInf | NInf | NaN

fun f_key :: "float64 \<Rightarrow> int \<times> rat" where
  "f_key NInf = (0, 0)"
| "f_key (Fin x) = (1, x)"
| "f_key PInf = (2, 0)"
| "f_key NaN = (3, 0)"

instantiation float64 :: linorder
begin

definition less_eq_float64 :: "float64 \<Rightarrow> float64 \<Rightarrow> bool" where
  "less_eq_float64 a b \<longleftrightarrow> f_key a \<le> f_key b"

definition less_float64 :: "float64 \<Rightarrow> float64 \<Rightarrow> bool" where
  "less_float64 a b \<longleftrightarrow> f_key a < f_key b"

instance
proof
  fix x y z :: float64
  show "(x < y) = (x \<le> y \<and> \<not> y \<le> x)"
    unfolding less_eq_float64_def less_float64_def by auto
  show "x \<le> x"
    unfolding less_eq_float64_def by simp
  show "x \<le> y \<Longrightarrow> y \<le> z \<Longrightarrow> x \<le> z"
    unfolding less_eq_float64_def by (rule order_trans)
  show "x \<le> y \<Longrightarrow> y \<le> x \<Longrightarrow> x = y"
    unfolding less_eq_float64_def
    by (cases x; cases y) auto
  show "x \<le> y \<or> y \<le> x"
    unfolding less_eq_float64_def by (rule linear)
qed

end

fun f_add :: "float64 \<Rightarrow> float64 \<Rightarrow> float64" where
  "f_add NaN _ = NaN"
| "f_add _ NaN = NaN"
| "f_add (Fin a) (Fin b) = Fin (a + b)"
| "f_add PInf NInf = NaN"
| "f_add NInf PInf = NaN"
| "f_add PInf _ = PInf"
| "f_add NInf _ = NInf"
| "f_add (Fin a) PInf = PInf"
| "f_add (Fin a) NInf = NInf"

fun f_neg :: "float64 \<Rightarrow> float64" where
  "f_neg (Fin a) = Fin (- a)"
| "f_neg PInf = NInf"
| "f_neg NInf = PInf"
| "f_neg NaN = NaN"

definition f_inf :: "bool \<Rightarrow> float64" where
  \<comment> \<open>the infinity of a given sign; \<open>True\<close> is positive\<close>
  "f_inf pos = (if pos then PInf else NInf)"

fun f_mul :: "float64 \<Rightarrow> float64 \<Rightarrow> float64" where
  "f_mul NaN _ = NaN"
| "f_mul _ NaN = NaN"
| "f_mul (Fin a) (Fin b) = Fin (a * b)"
| "f_mul (Fin a) PInf = (if a = 0 then NaN else f_inf (0 < a))"
| "f_mul (Fin a) NInf = (if a = 0 then NaN else f_inf (a < 0))"
| "f_mul PInf (Fin b) = (if b = 0 then NaN else f_inf (0 < b))"
| "f_mul NInf (Fin b) = (if b = 0 then NaN else f_inf (b < 0))"
| "f_mul PInf PInf = PInf"
| "f_mul NInf NInf = PInf"
| "f_mul PInf NInf = NInf"
| "f_mul NInf PInf = NInf"

fun f_div :: "float64 \<Rightarrow> float64 \<Rightarrow> float64" where
  "f_div NaN _ = NaN"
| "f_div _ NaN = NaN"
| "f_div (Fin a) (Fin b) =
     (if b = 0 then (if a = 0 then NaN else f_inf (0 < a)) else Fin (a / b))"
| "f_div (Fin a) PInf = Fin 0"
| "f_div (Fin a) NInf = Fin 0"
| "f_div PInf (Fin b) = f_inf (0 \<le> b)"
| "f_div NInf (Fin b) = f_inf (b < 0)"
| "f_div PInf _ = NaN"
| "f_div NInf _ = NaN"

subsection \<open>Exceptions\<close>

text \<open>
  The exceptions the program can meet. \<open>HTTPError\<close> is the one \<^verbatim>\<open>raise_for_status\<close>
  raises, with the status code; \<open>ConnectionError\<close> and \<open>Timeout\<close> are what
  \<^verbatim>\<open>requests.get\<close> itself raises when no response arrives; \<open>JSONDecodeError\<close> is
  what \<^verbatim>\<open>r.json()\<close> raises on a body that is not JSON. None of the last three is a
  subclass of \<^verbatim>\<open>requests.HTTPError\<close>.
\<close>

datatype exn =
    ConnectionError
  | Timeout
  | HTTPError int
  | JSONDecodeError
  | IndexError
  | KeyError string
  | KeyError_int int
  | ValueError string
  | BadZipFile
  | OSError string

fun is_HTTPError :: "exn \<Rightarrow> bool" where
  "is_HTTPError (HTTPError _) = True"
| "is_HTTPError _ = False"

subsection \<open>Constants of the script\<close>

definition NYC_COUNTIES :: "string list" where
  "NYC_COUNTIES = [''005'', ''047'', ''061'', ''081'', ''085'']"

definition STATE_FIPS :: string where
  "STATE_FIPS = ''36''"

definition TABLE :: string where
  "TABLE = ''B25064''"

definition VAR_NAME :: string where
  "VAR_NAME = ''B25064_001E''"

subsection \<open>Printing integers\<close>

definition digit_char :: "nat \<Rightarrow> char" where
  "digit_char d = ''0123456789'' ! d"

fun str_nat :: "nat \<Rightarrow> string" where
  "str_nat n = (if n < 10 then [digit_char n] else str_nat (n div 10) @ [digit_char (n mod 10)])"

declare str_nat.simps [simp del]

definition str_int :: "int \<Rightarrow> string" where
  \<comment> \<open>Python's \<^verbatim>\<open>str(i)\<close>, as an f-string formats an integer\<close>
  "str_int i = (if i < 0 then CHR ''-'' # str_nat (nat (- i)) else str_nat (nat i))"

subsection \<open>Responses, the environment and the state\<close>

text \<open>
  A response of \<^verbatim>\<open>requests.get\<close>. The statistics API answers with a JSON array of
  arrays of strings (or nulls), the header row first; \<open>json_body\<close> is that table, or
  \<open>None\<close> when the body is not a JSON document. The geometry server answers with a ZIP
  archive; \<open>zip_body\<close> is its content (the tables of its \<^verbatim>\<open>.shp\<close> members, in
  the order a directory listing gives them), or \<open>None\<close> when the body is not an archive.
\<close>

type_synonym json_table = "string option list list"

record 'g shp_row =
  s_GEOID :: string
  s_COUNTYFP :: string
  s_geometry :: 'g

type_synonym 'g shapefile = "'g shp_row list"

record 'g response =
  status_code :: int
  body_text :: string
  json_body :: "json_table option"
  zip_body :: "'g shapefile list option"

text \<open>
  Everything the program takes from outside and does not compute: the network (what a GET
  on a URL with query parameters does: it raises, or a response arrives), the numeric parser
  \<^verbatim>\<open>pd.to_numeric(..., errors='coerce')\<close> on one cell (unparsable and null cells give
  \<open>NaN\<close>), the geometric predicate \<^verbatim>\<open>within\<close>, reprojection between two named
  coordinate reference systems, and the index series read from the CPI file.
\<close>

record 'g env =
  http_get :: "string \<Rightarrow> (string \<times> string) list \<Rightarrow> exn + 'g response"
  to_numeric :: "string option \<Rightarrow> float64"
  within_pred :: "'g \<Rightarrow> 'g \<Rightarrow> bool"
  reproject :: "string \<Rightarrow> string \<Rightarrow> 'g \<Rightarrow> 'g"
  read_cpi :: "string \<Rightarrow> exn + (int \<rightharpoonup> float64)"

text \<open>Lines the program prints, one constructor per \<^verbatim>\<open>print\<close> of the source.\<close>

datatype msg =
    Fetching int
  | Census_call_failed string int string
  | Warning_failed_year int exn
  | Downloading_TIGER
  | Creating_NTA
  | Created_NTA nat
  | Step nat
  | Pulled nat
  | Crosswalk_rows nat
  | NTA_year_rows nat
  | Wrote string
  | Processing_complete

text \<open>One attribute row of the exported feature collection.\<close>

record 'g feature =
  ft_nta_code :: string
  ft_nta_name_x :: string
  ft_nta_name_y :: "string option"
  ft_geometry :: 'g
  ft_rents :: "(string \<times> float64) list"

text \<open>
  A node of the file system: a directory (with the tables of the \<^verbatim>\<open>*.shp\<close> files
  directly inside it, in listing order), a downloaded archive (its content, \<open>None\<close> when
  the bytes are not a ZIP archive), or a written feature collection.
\<close>

datatype 'g node =
    Dir "'g shapefile list"
  | ZipFile "'g shapefile list option"
  | GeoJSON "'g feature list"

record 'g state =
  fs :: "string \<rightharpoonup> 'g node"
  stdout :: "msg list"
  requested :: "string list"

definition print_msg :: "msg \<Rightarrow> 'g state \<Rightarrow> 'g state" where
  "print_msg m s = s\<lparr>stdout := stdout s @ [m]\<rparr>"

definition requests_get ::
  "'g env \<Rightarrow> string \<Rightarrow> (string \<times> string) list \<Rightarrow> 'g state \<Rightarrow> (exn + 'g response) \<times> 'g state" where
  \<comment> \<open>the request is recorded, then the network answers\<close>
  "requests_get E url params s = (http_get E url params, s\<lparr>requested := requested s @ [url]\<rparr>)"

definition raise_for_status :: "'g response \<Rightarrow> exn + unit" where
  \<comment> \<open>a 4xx or 5xx status raises \<^verbatim>\<open>HTTPError\<close>\<close>
  "raise_for_status r =
     (if 400 \<le> status_code r \<and> status_code r < 600 then Inl (HTTPError (status_code r)) else Inr ())"

section \<open>Statistical fetcher\<close>

record rent_row =
  r_geoid :: "string option"
  r_year :: int
  r_est :: float64

definition census_acs5_url :: "int \<Rightarrow> string" where
  "census_acs5_url year = ''https://api.census.gov/data/'' @ str_int year @ ''/acs/acs5''"

definition acs5_params :: "string \<Rightarrow> (string \<times> string) list" where
  "acs5_params api_key =
     [(''get'', ''NAME,'' @ VAR_NAME), (''for'', ''tract:*''),
      (''in'', ''state:'' @ STATE_FIPS), (''key'', api_key)]"

fun col_index :: "string option list \<Rightarrow> string \<Rightarrow> nat option" where
  "col_index [] name = None"
| "col_index (c # cs) name =
     (if c = Some name then Some 0 else map_option Suc (col_index cs name))"

definition cell :: "string option list \<Rightarrow> nat \<Rightarrow> string option" where
  \<comment> \<open>a row shorter than the widest one is padded with nulls by the frame constructor\<close>
  "cell row i = (if i < length row then row ! i else None)"

definition frame_width_ok :: "string option list \<Rightarrow> string option list list \<Rightarrow> bool" where
  \<comment> \<open>\<^verbatim>\<open>pd.DataFrame(rows, columns=cols)\<close> accepts no rows, or rows whose widest has
      as many cells as there are column names\<close>
  "frame_width_ok cols rows \<longleftrightarrow> rows = [] \<or> Max (set (map length rows)) = length cols"

definition acs5_frame :: "'g env \<Rightarrow> int \<Rightarrow> json_table \<Rightarrow> exn + rent_row list" where
  "acs5_frame E year data =
     (case data of
        [] \<Rightarrow> Inl IndexError
      | cols # rows \<Rightarrow>
          if \<not> frame_width_ok cols rows then Inl (ValueError ''columns passed'')
          else (case col_index cols ''county'' of
             None \<Rightarrow> Inl (KeyError ''county'')
           | Some ic \<Rightarrow>
              let df = filter (\<lambda>row. case cell row ic of None \<Rightarrow> False
                                        | Some c \<Rightarrow> c \<in> set NYC_COUNTIES) rows
              in (case col_index cols ''tract'' of
                 None \<Rightarrow> Inl (KeyError ''tract'')
               | Some it \<Rightarrow>
                  (case col_index cols VAR_NAME of
                     None \<Rightarrow> Inl (KeyError VAR_NAME)
                   | Some iv \<Rightarrow>
                      Inr (map (\<lambda>row.
                             \<lparr>r_geoid = (case (cell row ic, cell row it) of
                                           (Some c, Some t) \<Rightarrow> Some (STATE_FIPS @ c @ t)
                                         | _ \<Rightarrow> None),
                              r_year = year,
                              r_est = to_numeric E (cell row iv)\<rparr>) df)))))"

definition fetch_acs5_rent ::
  "'g env \<Rightarrow> int \<Rightarrow> string \<Rightarrow> 'g state \<Rightarrow> (exn + rent_row list) \<times> 'g state" where
  "fetch_acs5_rent E year api_key s =
     (let base = census_acs5_url year in
      case requests_get E base (acs5_params api_key) s of
        (Inl e, s1) \<Rightarrow> (Inl e, s1)
      | (Inr r, s1) \<Rightarrow>
          let failed = print_msg (Census_call_failed base (status_code r) (take 500 (body_text r))) s1 in
          (case raise_for_status r of
             Inl e \<Rightarrow> (Inl e, failed)
           | Inr _ \<Rightarrow>
              (case json_body r of
                 None \<Rightarrow> (Inl JSONDecodeError, failed)
               | Some data \<Rightarrow> (acs5_frame E year data, s1))))"

text \<open>
  The loop of \<^verbatim>\<open>fetch_many_years\<close> over the years still to fetch, with the frames
  collected so far. Only \<^verbatim>\<open>requests.HTTPError\<close> is handled; any other exception
  leaves the loop and the function.
\<close>

fun fetch_loop ::
  "'g env \<Rightarrow> string \<Rightarrow> int list \<Rightarrow> rent_row list list \<Rightarrow> 'g state
     \<Rightarrow> (exn + rent_row list list) \<times> 'g state" where
  "fetch_loop E api_key [] frames s = (Inr frames, s)"
| "fetch_loop E api_key (y # ys) frames s =
     (case fetch_acs5_rent E y api_key (print_msg (Fetching y) s) of
        (Inr df, s1) \<Rightarrow> fetch_loop E api_key ys (frames @ [df]) s1
      | (Inl e, s1) \<Rightarrow>
          if is_HTTPError e
          then fetch_loop E api_key ys frames (print_msg (Warning_failed_year y e) s1)
          else (Inl e, s1))"

definition pd_concat :: "'a list list \<Rightarrow> exn + 'a list" where
  \<comment> \<open>\<^verbatim>\<open>pd.concat\<close> refuses an empty list of frames\<close>
  "pd_concat frames =
     (if frames = [] then Inl (ValueError ''No objects to concatenate'') else Inr (concat frames))"

definition fetch_many_years ::
  "'g env \<Rightarrow> int \<Rightarrow> int \<Rightarrow> string \<Rightarrow> 'g state \<Rightarrow> (exn + rent_row list) \<times> 'g state" where
  "fetch_many_years E start end_year api_key s =
     (case fetch_loop E api_key [start..end_year] [] s of
        (Inl e, s1) \<Rightarrow> (Inl e, s1)
      | (Inr frames, s1) \<Rightarrow> (pd_concat frames, s1))"

section \<open>Geometry loader\<close>

text \<open>
  A geo data frame is its coordinate reference system and its rows. Tract rows carry the
  identifier and the polygon; unit rows carry code, display name and polygon.
\<close>

record 'g tract =
  t_GEOID :: string
  t_geometry :: 'g

record 'g nta =
  n_code :: string
  n_name :: string
  n_geometry :: 'g

record 'r gdf =
  crs :: string
  rows :: "'r list"

definition mkdir_exist_ok :: "string \<Rightarrow> 'g state \<Rightarrow> (exn + unit) \<times> 'g state" where
  \<comment> \<open>creating a directory that may exist; a path taken by a file is an error\<close>
  "mkdir_exist_ok p s =
     (case fs s p of
        None \<Rightarrow> (Inr (), s\<lparr>fs := (fs s)(p \<mapsto> Dir [])\<rparr>)
      | Some (Dir _) \<Rightarrow> (Inr (), s)
      | Some _ \<Rightarrow> (Inl (OSError p), s))"

definition tiger_dir :: string where
  "tiger_dir = ''data/tiger''"

definition download_zip ::
  "'g env \<Rightarrow> string \<Rightarrow> string \<Rightarrow> 'g state \<Rightarrow> (exn + unit) \<times> 'g state" where
  \<comment> \<open>the only caller saves under \<^verbatim>\<open>data/tiger\<close>, whose parents are \<^verbatim>\<open>data\<close>
      and itself\<close>
  "download_zip E url dest_zip s =
     (case mkdir_exist_ok ''data'' s of
        (Inl e, s1) \<Rightarrow> (Inl e, s1)
      | (Inr _, s1) \<Rightarrow>
         (case mkdir_exist_ok tiger_dir s1 of
            (Inl e, s2) \<Rightarrow> (Inl e, s2)
          | (Inr _, s2) \<Rightarrow>
             (case requests_get E url [] s2 of
                (Inl e, s3) \<Rightarrow> (Inl e, s3)
              | (Inr r, s3) \<Rightarrow>
                 (case raise_for_status r of
                    Inl e \<Rightarrow> (Inl e, s3)
                  | Inr _ \<Rightarrow>
                     (case fs s3 dest_zip of
                        Some (Dir _) \<Rightarrow> (Inl (OSError dest_zip), s3)
                      | _ \<Rightarrow> (Inr (), s3\<lparr>fs := (fs s3)(dest_zip \<mapsto> ZipFile (zip_body r))\<rparr>))))))"

definition extract_zip :: "string \<Rightarrow> string \<Rightarrow> 'g state \<Rightarrow> (exn + unit) \<times> 'g state" where
  "extract_zip path_zip dest_dir s =
     (case fs s path_zip of
        Some (ZipFile (Some members)) \<Rightarrow>
          (case fs s dest_dir of
             None \<Rightarrow> (Inr (), s\<lparr>fs := (fs s)(dest_dir \<mapsto> Dir members)\<rparr>)
           | Some (Dir old) \<Rightarrow> (Inr (), s\<lparr>fs := (fs s)(dest_dir \<mapsto> Dir members)\<rparr>)
           | Some _ \<Rightarrow> (Inl (OSError dest_dir), s))
      | Some (ZipFile None) \<Rightarrow> (Inl BadZipFile, s)
      | Some (GeoJSON _) \<Rightarrow> (Inl BadZipFile, s)
      | _ \<Rightarrow> (Inl (OSError path_zip), s))"

definition tiger_url :: string where
  "tiger_url = ''https://www2.census.gov/geo/tiger/TIGER2020/TRACT/tl_2020_'' @ STATE_FIPS @ ''_tract.zip''"

definition tiger_zpath :: string where
  "tiger_zpath = tiger_dir @ ''/tl_2020_'' @ STATE_FIPS @ ''_tract.zip''"

definition tiger_ddir :: string where
  "tiger_ddir = tiger_dir @ ''/tl_2020_'' @ STATE_FIPS @ ''_tract''"

definition glob_shp :: "'g state \<Rightarrow> string \<Rightarrow> 'g shapefile list" where
  \<comment> \<open>\<^verbatim>\<open>list(ddir.glob("*.shp"))\<close>: nothing unless the path is a directory\<close>
  "glob_shp s d = (case fs s d of Some (Dir shps) \<Rightarrow> shps | _ \<Rightarrow> [])"

definition read_tracts :: "'g state \<Rightarrow> exn + 'g tract gdf" where
  \<comment> \<open>the part of \<^verbatim>\<open>get_tiger_tracts_2020\<close> after the download guard\<close>
  "read_tracts s =
     (case glob_shp s tiger_ddir of
        [] \<Rightarrow> Inl IndexError
      | shp # _ \<Rightarrow>
          Inr \<lparr>crs = ''EPSG:4269'',
               rows = map (\<lambda>r. \<lparr>t_GEOID = s_GEOID r, t_geometry = s_geometry r\<rparr>)
                        (filter (\<lambda>r. s_COUNTYFP r \<in> set NYC_COUNTIES) shp)\<rparr>)"

definition get_tiger_tracts_2020 :: "'g env \<Rightarrow> 'g state \<Rightarrow> (exn + 'g tract gdf) \<times> 'g state" where
  "get_tiger_tracts_2020 E s =
     (if fs s tiger_ddir = None
      then (case download_zip E tiger_url tiger_zpath (print_msg Downloading_TIGER s) of
              (Inl e, s1) \<Rightarrow> (Inl e, s1)
            | (Inr _, s1) \<Rightarrow>
               (case extract_zip tiger_zpath tiger_ddir s1 of
                  (Inl e, s2) \<Rightarrow> (Inl e, s2)
                | (Inr _, s2) \<Rightarrow> (read_tracts s2, s2)))
      else (read_tracts s, s))"

definition to_crs_tracts :: "'g env \<Rightarrow> string \<Rightarrow> 'g tract gdf \<Rightarrow> 'g tract gdf" where
  "to_crs_tracts E target g =
     \<lparr>crs = target,
      rows = map (\<lambda>t. t\<lparr>t_geometry := reproject E (crs g) target (t_geometry t)\<rparr>) (rows g)\<rparr>"

definition to_crs_ntas :: "'g env \<Rightarrow> string \<Rightarrow> 'g nta gdf \<Rightarrow> 'g nta gdf" where
  "to_crs_ntas E target g =
     \<lparr>crs = target,
      rows = map (\<lambda>n. n\<lparr>n_geometry := reproject E (crs g) target (n_geometry n)\<rparr>) (rows g)\<rparr>"

definition get_nta2020 :: "'g env \<Rightarrow> 'g state \<Rightarrow> (exn + 'g nta gdf) \<times> 'g state" where
  "get_nta2020 E s =
     (case get_tiger_tracts_2020 E (print_msg Creating_NTA s) of
        (Inl e, s1) \<Rightarrow> (Inl e, s1)
      | (Inr tracts, s1) \<Rightarrow>
          let nta_gdf = \<lparr>crs = crs tracts,
                         rows = map (\<lambda>t. \<lparr>n_code = t_GEOID t,
                                          n_name = ''Tract '' @ t_GEOID t,
                                          n_geometry = t_geometry t\<rparr>) (rows tracts)\<rparr>
          in (Inr (to_crs_ntas E ''EPSG:2263'' nta_gdf),
              print_msg (Created_NTA (length (rows nta_gdf))) s1))"

section \<open>Spatial aggregator\<close>

record cross_row =
  c_GEOID :: string
  c_nta_code :: "string option"
  c_nta_name :: "string option"

text \<open>
  \<^verbatim>\<open>gpd.sjoin(tr, ntas, how='left', predicate='within')\<close>: every left row is kept; it is
  paired with each unit whose polygon it lies within, and with nulls when there is none.
\<close>

definition sjoin_left_within :: "'g env \<Rightarrow> 'g tract list \<Rightarrow> 'g nta list \<Rightarrow> cross_row list" where
  "sjoin_left_within E tr ntas =
     concat (map (\<lambda>t.
       (case filter (\<lambda>n. within_pred E (t_geometry t) (n_geometry n)) ntas of
          [] \<Rightarrow> [\<lparr>c_GEOID = t_GEOID t, c_nta_code = None, c_nta_name = None\<rparr>]
        | ms \<Rightarrow> map (\<lambda>n. \<lparr>c_GEOID = t_GEOID t, c_nta_code = Some (n_code n),
                          c_nta_name = Some (n_name n)\<rparr>) ms)) tr)"

fun drop_dups :: "'a list \<Rightarrow> 'a list \<Rightarrow> 'a list" where
  "drop_dups seen [] = []"
| "drop_dups seen (x # xs) =
     (if x \<in> set seen then drop_dups seen xs else x # drop_dups (x # seen) xs)"

definition drop_duplicates :: "'a list \<Rightarrow> 'a list" where
  \<comment> \<open>the first of equal rows is kept\<close>
  "drop_duplicates xs = drop_dups [] xs"

definition spatial_join_to_nta :: "'g env \<Rightarrow> 'g tract gdf \<Rightarrow> 'g nta gdf \<Rightarrow> cross_row list" where
  "spatial_join_to_nta E tracts ntas =
     (let tr = to_crs_tracts E (crs ntas) tracts;
          sj = sjoin_left_within E (rows tr) (rows ntas)
      in drop_duplicates sj)"

record joined_row =
  j_geoid :: "string option"
  j_year :: int
  j_est :: float64
  j_nta_code :: "string option"
  j_nta_name :: "string option"

definition merge_left :: "rent_row list \<Rightarrow> cross_row list \<Rightarrow> joined_row list" where
  \<comment> \<open>\<^verbatim>\<open>rents.merge(cross, left_on='geoid', right_on='GEOID', how='left')\<close>\<close>
  "merge_left rents cross =
     concat (map (\<lambda>r.
       (case filter (\<lambda>c. r_geoid r = Some (c_GEOID c)) cross of
          [] \<Rightarrow> [\<lparr>j_geoid = r_geoid r, j_year = r_year r, j_est = r_est r,
                   j_nta_code = None, j_nta_name = None\<rparr>]
        | ms \<Rightarrow> map (\<lambda>c. \<lparr>j_geoid = r_geoid r, j_year = r_year r, j_est = r_est r,
                          j_nta_code = c_nta_code c, j_nta_name = c_nta_name c\<rparr>) ms)) rents)"

definition dropna_nta_code :: "joined_row list \<Rightarrow> joined_row list" where
  "dropna_nta_code df = filter (\<lambda>j. j_nta_code j \<noteq> None) df"

definition pd_median :: "float64 list \<Rightarrow> float64" where
  \<comment> \<open>the median that skips missing values: the middle of the sorted rest, the mean of
      the two middle ones when their number is even, missing when nothing is left\<close>
  "pd_median vs =
     (let xs = sort (filter (\<lambda>v. v \<noteq> NaN) vs); n = length xs in
      if n = 0 then NaN
      else if odd n then xs ! (n div 2)
      else f_div (f_add (xs ! (n div 2 - 1)) (xs ! (n div 2))) (Fin 2))"

record nta_year =
  a_code :: string
  a_name :: string
  a_year :: int
  a_est :: float64

definition group_keys :: "joined_row list \<Rightarrow> (string \<times> string \<times> int) list" where
  \<comment> \<open>the keys of \<^verbatim>\<open>groupby(['nta_code','nta_name','year'])\<close>: rows with a null key
      column belong to no group; the groups come out in key order\<close>
  "group_keys df =
     sort (remdups (concat (map (\<lambda>j.
       (case (j_nta_code j, j_nta_name j) of
          (Some c, Some n) \<Rightarrow> [(c, n, j_year j)]
        | _ \<Rightarrow> [])) df)))"

definition group_values :: "joined_row list \<Rightarrow> string \<times> string \<times> int \<Rightarrow> float64 list" where
  "group_values df k =
     map j_est (filter (\<lambda>j. (j_nta_code j, j_nta_name j, j_year j) = (Some (fst k), Some (fst (snd k)), snd (snd k))) df)"

definition groupby_median :: "joined_row list \<Rightarrow> nta_year list" where
  "groupby_median df =
     map (\<lambda>k. \<lparr>a_code = fst k, a_name = fst (snd k), a_year = snd (snd k),
                a_est = pd_median (group_values df k)\<rparr>) (group_keys df)"

definition aggregate_to_nta :: "rent_row list \<Rightarrow> cross_row list \<Rightarrow> nta_year list" where
  "aggregate_to_nta rents cross = groupby_median (dropna_nta_code (merge_left rents cross))"

section \<open>Inflation normalizer\<close>

record adj_row = nta_year +
  rent_adj :: float64

fun adjust_rows :: "float64 \<Rightarrow> (int \<rightharpoonup> float64) \<Rightarrow> nta_year list \<Rightarrow> exn + adj_row list" where
  "adjust_rows base cpi [] = Inr []"
| "adjust_rows base cpi (r # rs) =
     (case cpi (a_year r) of
        None \<Rightarrow> Inl (KeyError_int (a_year r))
      | Some c \<Rightarrow>
         (case adjust_rows base cpi rs of
            Inl e \<Rightarrow> Inl e
          | Inr done_rows \<Rightarrow>
             Inr (\<lparr>a_code = a_code r, a_name = a_name r, a_year = a_year r, a_est = a_est r,
                   rent_adj = f_mul (a_est r) (f_div base c)\<rparr> # done_rows)))"

text \<open>
  The body of \<^verbatim>\<open>cpi_adjust\<close> once the index series is read. A frame without rows is a
  case of its own: \<^verbatim>\<open>df.apply(..., axis=1)\<close> then gives back a copy of the frame, which
  cannot be assigned to the one new column.
\<close>

definition cpi_adjust_series :: "nta_year list \<Rightarrow> (int \<rightharpoonup> float64) \<Rightarrow> int \<Rightarrow> exn + adj_row list" where
  "cpi_adjust_series df cpi base_year =
     (case cpi base_year of
        None \<Rightarrow> Inl (ValueError (''CPI base year '' @ str_int base_year @ '' not in CPI CSV.''))
      | Some base \<Rightarrow>
          if df = [] then Inl (ValueError ''Cannot set a DataFrame with multiple columns'')
          else adjust_rows base cpi df)"

definition cpi_adjust :: "'g env \<Rightarrow> nta_year list \<Rightarrow> string \<Rightarrow> int \<Rightarrow> exn + adj_row list" where
  "cpi_adjust E df cpi_csv base_year =
     (case read_cpi E cpi_csv of
        Inl e \<Rightarrow> Inl e
      | Inr cpi \<Rightarrow> cpi_adjust_series df cpi base_year)"

section \<open>Reshaper and exporter\<close>

definition pd_mean :: "float64 list \<Rightarrow> float64" where
  \<comment> \<open>the mean that skips missing values; missing when nothing is left\<close>
  "pd_mean vs =
     (let xs = filter (\<lambda>v. v \<noteq> NaN) vs in
      if xs = [] then NaN
      else f_div (foldl f_add (Fin 0) xs) (Fin (of_nat (length xs))))"

record wide_row =
  w_code :: string
  w_name :: string
  w_cells :: "float64 list"

record wide =
  w_columns :: "string list"
  w_rows :: "wide_row list"

text \<open>
  \<^verbatim>\<open>pivot_table\<close> with its defaults: the rows are grouped by index and column keys and
  averaged, the groups whose average is missing are dropped, and what is left is spread
  over one row per index key and one column per column key; a key pair without a group is a
  missing cell. Every column left has a value in some row, so the final removal of columns
  that are missing throughout has nothing to remove.
\<close>

definition pivot_agged :: "adj_row list \<Rightarrow> ((string \<times> string \<times> int) \<times> float64) list" where
  "pivot_agged df =
     filter (\<lambda>kv. snd kv \<noteq> NaN)
       (map (\<lambda>k. (k, pd_mean (map rent_adj
                     (filter (\<lambda>r. (a_code r, a_name r, a_year r) = k) df))))
            (sort (remdups (map (\<lambda>r. (a_code r, a_name r, a_year r)) df))))"

definition pivot_index :: "adj_row list \<Rightarrow> (string \<times> string) list" where
  "pivot_index df = sort (remdups (map (\<lambda>kv. (fst (fst kv), fst (snd (fst kv)))) (pivot_agged df)))"

definition pivot_years :: "adj_row list \<Rightarrow> int list" where
  "pivot_years df = sort (remdups (map (\<lambda>kv. snd (snd (fst kv))) (pivot_agged df)))"

definition pivot_cell :: "adj_row list \<Rightarrow> string \<times> string \<Rightarrow> int \<Rightarrow> float64" where
  "pivot_cell df u y =
     (case map_of (pivot_agged df) (fst u, snd u, y) of None \<Rightarrow> NaN | Some v \<Rightarrow> v)"

definition rent_column :: "int \<Rightarrow> string" where
  "rent_column y = ''rent_'' @ str_int y"

definition pivot_wide :: "adj_row list \<Rightarrow> wide" where
  "pivot_wide df_adj =
     \<lparr>w_columns = map rent_column (pivot_years df_adj),
      w_rows = map (\<lambda>u. \<lparr>w_code = fst u, w_name = snd u,
                          w_cells = map (pivot_cell df_adj u) (pivot_years df_adj)\<rparr>)
                   (pivot_index df_adj)\<rparr>"

definition round_half_even :: "rat \<Rightarrow> rat" where
  "round_half_even x =
     (let f = \<lfloor>x\<rfloor>; d = x - of_int f in
      if d < 1 / 2 then of_int f
      else if 1 / 2 < d then of_int (f + 1)
      else if even f then of_int f else of_int (f + 1))"

fun f_round :: "float64 \<Rightarrow> float64" where
  "f_round (Fin x) = Fin (round_half_even x)"
| "f_round v = v"

definition merge_features :: "'g nta list \<Rightarrow> wide \<Rightarrow> 'g feature list" where
  \<comment> \<open>\<^verbatim>\<open>ntas_gdf.merge(wide, on nta_code, how='left')\<close> and the rounding of the rent
      columns; both frames have a name column, which the merge keeps twice\<close>
  "merge_features ntas wd =
     concat (map (\<lambda>n.
       (case filter (\<lambda>w. w_code w = n_code n) (w_rows wd) of
          [] \<Rightarrow> [\<lparr>ft_nta_code = n_code n, ft_nta_name_x = n_name n, ft_nta_name_y = None,
                   ft_geometry = n_geometry n,
                   ft_rents = map (\<lambda>c. (c, NaN)) (w_columns wd)\<rparr>]
        | ms \<Rightarrow> map (\<lambda>w. \<lparr>ft_nta_code = n_code n, ft_nta_name_x = n_name n,
                          ft_nta_name_y = Some (w_name w), ft_geometry = n_geometry n,
                          ft_rents = zip (w_columns wd) (map f_round (w_cells w))\<rparr>) ms)) ntas)"

definition wide_to_geojson ::
  "'g env \<Rightarrow> wide \<Rightarrow> 'g nta gdf \<Rightarrow> string \<Rightarrow> 'g state \<Rightarrow> (exn + unit) \<times> 'g state" where
  "wide_to_geojson E wd ntas_gdf out_path s =
     (let g = merge_features (rows ntas_gdf) wd;
          feats = map (\<lambda>f. f\<lparr>ft_geometry := reproject E (crs ntas_gdf) ''EPSG:4326'' (ft_geometry f)\<rparr>) g
      in case fs s out_path of
           Some (Dir _) \<Rightarrow> (Inl (OSError out_path), s)
         | _ \<Rightarrow> (Inr (), print_msg (Wrote out_path) (s\<lparr>fs := (fs s)(out_path \<mapsto> GeoJSON feats)\<rparr>)))"

section \<open>The pipeline\<close>

record args =
  arg_census_key :: string
  arg_start :: int
  arg_end :: int
  arg_cpi_csv :: string
  arg_out :: string

definition main :: "'g env \<Rightarrow> args \<Rightarrow> 'g state \<Rightarrow> (exn + unit) \<times> 'g state" where
  "main E a s =
     (case mkdir_exist_ok ''data'' s of
        (Inl e, s0) \<Rightarrow> (Inl e, s0)
      | (Inr _, s0) \<Rightarrow>
     (case fetch_many_years E (arg_start a) (arg_end a) (arg_census_key a) (print_msg (Step 1) s0) of
        (Inl e, s1) \<Rightarrow> (Inl e, s1)
      | (Inr rents, s1) \<Rightarrow>
     (case get_tiger_tracts_2020 E (print_msg (Step 2) (print_msg (Pulled (length rents)) s1)) of
        (Inl e, s2) \<Rightarrow> (Inl e, s2)
      | (Inr tracts, s2) \<Rightarrow>
     (case get_nta2020 E s2 of
        (Inl e, s3) \<Rightarrow> (Inl e, s3)
      | (Inr ntas, s3) \<Rightarrow>
     (let cross = spatial_join_to_nta E tracts ntas;
          s4 = print_msg (Step 4) (print_msg (Crosswalk_rows (length cross)) (print_msg (Step 3) s3));
          nta_yr = aggregate_to_nta rents cross;
          s5 = print_msg (Step 5) (print_msg (NTA_year_rows (length nta_yr)) s4)
      in case cpi_adjust E nta_yr (arg_cpi_csv a) 2025 of
           Inl e \<Rightarrow> (Inl e, s5)
         | Inr adj \<Rightarrow>
            (case wide_to_geojson E (pivot_wide adj) ntas (arg_out a) (print_msg (Step 6) s5) of
               (Inl e, s6) \<Rightarrow> (Inl e, s6)
             | (Inr _, s6) \<Rightarrow> (Inr (), print_msg Processing_complete s6)))))))"

section \<open>Notions used in the statements\<close>

definition init_state :: "'g state" where
  "init_state = \<lparr>fs = Map.empty, stdout = [], requested = []\<rparr>"





definition warned_years :: "msg list \<Rightarrow> int list" where
  "warned_years ms = concat (map (\<lambda>m. case m of Warning_failed_year y _ \<Rightarrow> [y] | _ \<Rightarrow> []) ms)"

definition no_new_geojson :: "'g state \<Rightarrow> 'g state \<Rightarrow> bool" where
  "no_new_geojson s s' \<longleftrightarrow> (\<forall>p fc. fs s' p = Some (GeoJSON fc) \<longrightarrow> fs s p = Some (GeoJSON fc))"

section \<open>A small world for examples\<close>

definition ex_header :: "string option list" where
  "ex_header = [Some ''NAME'', Some ''B25064_001E'', Some ''state'', Some ''county'', Some ''tract'']"

definition ex_table :: "string \<Rightarrow> json_table" where
  "ex_table v =
     [ex_header,
      [Some ''Census Tract 1, Bronx County, New York'', Some v, Some ''36'', Some ''005'', Some ''000100''],
      [Some ''Census Tract 9, Albany County, New York'', Some ''900'', Some ''36'', Some ''001'', Some ''000900'']]"

definition ex_ok :: "json_table \<Rightarrow> nat response" where
  "ex_ok t = \<lparr>status_code = 200, body_text = [], json_body = Some t, zip_body = None\<rparr>"

definition ex_not_found :: "nat response" where
  "ex_not_found = \<lparr>status_code = 404, body_text = ''error: unknown/unsupported vintage'',
                    json_body = None, zip_body = None\<rparr>"

definition ex_shapefile :: "nat shapefile" where
  "ex_shapefile =
     [\<lparr>s_GEOID = ''36005000100'', s_COUNTYFP = ''005'', s_geometry = 1\<rparr>,
      \<lparr>s_GEOID = ''36001000900'', s_COUNTYFP = ''001'', s_geometry = 9\<rparr>]"

definition ex_tiger :: "nat response" where
  "ex_tiger = \<lparr>status_code = 200, body_text = [], json_body = None, zip_body = Some [ex_shapefile]\<rparr>"

definition ex_http :: "exn + nat response \<Rightarrow> string \<Rightarrow> (string \<times> string) list \<Rightarrow> exn + nat response" where
  "ex_http mid url params =
     (if url = census_acs5_url 2019 then Inr (ex_ok (ex_table ''1000''))
      else if url = census_acs5_url 2020 then mid
      else if url = census_acs5_url 2021 then Inr (ex_ok (ex_table ''1200''))
      else if url = tiger_url then Inr ex_tiger
      else Inl ConnectionError)"

definition digit_val :: "char \<Rightarrow> nat option" where
  "digit_val c = map_of (zip ''0123456789'' [0, 1, 2, 3, 4, 5, 6, 7, 8, 9]) c"

fun parse_nat :: "nat \<Rightarrow> string \<Rightarrow> nat option" where
  "parse_nat acc [] = Some acc"
| "parse_nat acc (c # cs) =
     (case digit_val c of None \<Rightarrow> None | Some d \<Rightarrow> parse_nat (10 * acc + d) cs)"

definition ex_to_numeric :: "string option \<Rightarrow> float64" where
  "ex_to_numeric c =
     (case c of
        None \<Rightarrow> NaN
      | Some [] \<Rightarrow> NaN
      | Some s \<Rightarrow> (case parse_nat 0 s of None \<Rightarrow> NaN | Some n \<Rightarrow> Fin (of_nat n)))"

definition ex_identity :: "string \<Rightarrow> string \<Rightarrow> nat \<Rightarrow> nat" where
  "ex_identity src dst g = g"

definition ex_env :: "exn + nat response \<Rightarrow> (int \<times> float64) list \<Rightarrow> nat env" where
  "ex_env mid cpi =
     \<lparr>http_get = ex_http mid, to_numeric = ex_to_numeric, within_pred = (=),
      reproject = ex_identity,
      read_cpi = (\<lambda>p. if p = ''data/cpi.csv'' then Inr (map_of cpi) else Inl (OSError p))\<rparr>"

definition ex_cpi :: "(int \<times> float64) list" where
  "ex_cpi = [(2019, Fin 256), (2020, Fin 259), (2021, Fin 271), (2025, Fin 320)]"

definition ex_args :: args where
  "ex_args = \<lparr>arg_census_key = ''key'', arg_start = 2019, arg_end = 2021,
              arg_cpi_csv = ''data/cpi.csv'', arg_out = ''data/nta_rents.geojson''\<rparr>"




definition nta_key :: "'a nta_year_scheme \<Rightarrow> string \<times> string \<times> int" where
  "nta_key g = (a_code g, a_name g, a_year g)"

definition contributing :: "rent_row list \<Rightarrow> cross_row list \<Rightarrow> string \<times> string \<times> int \<Rightarrow> float64 list" where
  \<comment> \<open>the estimates of the tract-year records that the crosswalk sends to a unit, for a year\<close>
  "contributing rents cross k =
     concat (map (\<lambda>r. concat (map (\<lambda>x.
        if r_geoid r = Some (c_GEOID x) \<and> c_nta_code x = Some (fst k) \<and>
           c_nta_name x = Some (fst (snd k)) \<and> r_year r = snd (snd k)
        then [r_est r] else []) cross)) rents)"

definition merge_block :: "rent_row \<Rightarrow> cross_row list \<Rightarrow> joined_row list" where
  "merge_block r cross =
       (case filter (\<lambda>c. r_geoid r = Some (c_GEOID c)) cross of
          [] \<Rightarrow> [\<lparr>j_geoid = r_geoid r, j_year = r_year r, j_est = r_est r,
                   j_nta_code = None, j_nta_name = None\<rparr>]
        | ms \<Rightarrow> map (\<lambda>c. \<lparr>j_geoid = r_geoid r, j_year = r_year r, j_est = r_est r,
                          j_nta_code = c_nta_code c, j_nta_name = c_nta_name c\<rparr>) ms)"

definition ex_cross :: "cross_row list" where
  "ex_cross =
     [\<lparr>c_GEOID = ''36005000100'', c_nta_code = Some ''BX01'', c_nta_name = Some ''Mott Haven''\<rparr>,
      \<lparr>c_GEOID = ''36005000200'', c_nta_code = Some ''BX01'', c_nta_name = Some ''Mott Haven''\<rparr>,
      \<lparr>c_GEOID = ''36005000300'', c_nta_code = Some ''BX01'', c_nta_name = Some ''Mott Haven''\<rparr>,
      \<lparr>c_GEOID = ''36005000400'', c_nta_code = None, c_nta_name = None\<rparr>]"

definition ex_rents :: "float64 \<Rightarrow> float64 \<Rightarrow> float64 \<Rightarrow> rent_row list" where
  "ex_rents v1 v2 v3 =
     [\<lparr>r_geoid = Some ''36005000100'', r_year = 2020, r_est = v1\<rparr>,
      \<lparr>r_geoid = Some ''36005000200'', r_year = 2020, r_est = v2\<rparr>,
      \<lparr>r_geoid = Some ''36005000300'', r_year = 2020, r_est = v3\<rparr>,
      \<lparr>r_geoid = Some ''36005000400'', r_year = 2020, r_est = Fin 5000\<rparr>]"

definition matches :: "'g env \<Rightarrow> 'g tract gdf \<Rightarrow> 'g nta gdf \<Rightarrow> 'g tract \<Rightarrow> 'g nta list" where
  \<comment> \<open>the units whose polygon a tract of the tract table lies within, once the tract is
      brought to the units' reference system\<close>
  "matches E tracts ntas t =
     filter (\<lambda>n. within_pred E (reproject E (crs tracts) (crs ntas) (t_geometry t)) (n_geometry n))
       (rows ntas)"

definition sjoin_block :: "string \<Rightarrow> 'g nta list \<Rightarrow> cross_row list" where
  "sjoin_block g ms =
     (case ms of
        [] \<Rightarrow> [\<lparr>c_GEOID = g, c_nta_code = None, c_nta_name = None\<rparr>]
      | _ \<Rightarrow> map (\<lambda>n. \<lparr>c_GEOID = g, c_nta_code = Some (n_code n), c_nta_name = Some (n_name n)\<rparr>) ms)"

definition ex_tracts :: "nat tract gdf" where
  \<comment> \<open>polygons are squares with a corner at the origin, given by their side\<close>
  "ex_tracts =
     \<lparr>crs = ''EPSG:4269'',
      rows = [\<lparr>t_GEOID = ''36005000100'', t_geometry = 2\<rparr>,
              \<lparr>t_GEOID = ''36005000400'', t_geometry = 9\<rparr>]\<rparr>"

definition ex_ntas :: "nat nta gdf" where
  "ex_ntas =
     \<lparr>crs = ''EPSG:2263'',
      rows = [\<lparr>n_code = ''BX01'', n_name = ''Mott Haven'', n_geometry = 2\<rparr>,
              \<lparr>n_code = ''BX02'', n_name = ''Hunts Point'', n_geometry = 3\<rparr>]\<rparr>"


section \<open>Properties of the fetcher\<close>


lemma fetch_acs5_rent_fs: "fs (snd (fetch_acs5_rent E y k s)) = fs s"
  by (simp add: fetch_acs5_rent_def requests_get_def print_msg_def Let_def
      split: sum.splits option.splits prod.splits)

lemma warned_years_append: "warned_years (xs @ ys) = warned_years xs @ warned_years ys"
  by (simp add: warned_years_def)





lemma fetch_loop_fs: "fs (snd (fetch_loop E k ys frames s)) = fs s"
proof (induction ys arbitrary: frames s)
  case Nil
  then show ?case by simp
next
  case (Cons y ys)
  obtain r s1 where f: "fetch_acs5_rent E y k (print_msg (Fetching y) s) = (r, s1)"
    by (cases "fetch_acs5_rent E y k (print_msg (Fetching y) s)")
  then have s1: "fs s1 = fs s"
    using fetch_acs5_rent_fs [of E y k "print_msg (Fetching y) s"] by (simp add: print_msg_def)
  show ?case
    using f s1 Cons.IH by (cases r) (simp_all add: print_msg_def)
qed



lemma fetch_many_years_fs: "fs (snd (fetch_many_years E a b k s)) = fs s"
proof -
  obtain r s1 where f: "fetch_loop E k [a..b] [] s = (r, s1)"
    by (cases "fetch_loop E k [a..b] [] s")
  with fetch_loop_fs [of E k "[a..b]" "[]" s] have "fs s1 = fs s" by simp
  with f show ?thesis
    by (cases r) (simp_all add: fetch_many_years_def)
qed


section \<open>What a run leaves on disk\<close>

lemma nng_refl: "no_new_geojson s s"
  by (simp add: no_new_geojson_def)

lemma nng_fs_eq: "fs s' = fs s \<Longrightarrow> no_new_geojson s s'"
  by (simp add: no_new_geojson_def)

lemma nng_trans: "no_new_geojson s s1 \<Longrightarrow> no_new_geojson s1 s2 \<Longrightarrow> no_new_geojson s s2"
  by (simp add: no_new_geojson_def)

lemma nng_print_l: "no_new_geojson (print_msg m s) s' = no_new_geojson s s'"
  by (simp add: no_new_geojson_def print_msg_def)

lemma nng_print_r: "no_new_geojson s (print_msg m s') = no_new_geojson s s'"
  by (simp add: no_new_geojson_def print_msg_def)

lemma nng_mkdir: "no_new_geojson s (snd (mkdir_exist_ok p s))"
  by (simp add: no_new_geojson_def mkdir_exist_ok_def split: option.splits node.splits)

lemma nng_download_zip: "no_new_geojson s (snd (download_zip E url dest s))"
  by (auto simp add: no_new_geojson_def download_zip_def mkdir_exist_ok_def requests_get_def
      split: option.splits node.splits sum.splits prod.splits if_splits)

lemma nng_extract_zip: "no_new_geojson s (snd (extract_zip z d s))"
  by (auto simp add: no_new_geojson_def extract_zip_def
      split: option.splits node.splits sum.splits prod.splits if_splits)

lemma nng_get_tiger: "no_new_geojson s (snd (get_tiger_tracts_2020 E s))"
proof (cases "fs s tiger_ddir = None")
  case False
  then obtain y where "fs s tiger_ddir = Some y" by auto
  then show ?thesis by (simp add: get_tiger_tracts_2020_def nng_refl)
next
  case True
  let ?s0 = "print_msg Downloading_TIGER s"
  obtain r1 s1 where d: "download_zip E tiger_url tiger_zpath ?s0 = (r1, s1)"
    by (cases "download_zip E tiger_url tiger_zpath ?s0")
  have n1: "no_new_geojson s s1"
    using nng_download_zip [of ?s0 E tiger_url tiger_zpath] d by (simp add: nng_print_l)
  obtain r2 s2 where x: "extract_zip tiger_zpath tiger_ddir s1 = (r2, s2)"
    by (cases "extract_zip tiger_zpath tiger_ddir s1")
  have n2: "no_new_geojson s s2"
    using nng_extract_zip [of s1 tiger_zpath tiger_ddir] x n1 by (auto intro: nng_trans)
  show ?thesis
    using True d x n1 n2
    by (cases r1; cases r2) (simp_all add: get_tiger_tracts_2020_def)
qed

lemma nng_get_nta: "no_new_geojson s (snd (get_nta2020 E s))"
proof -
  let ?s0 = "print_msg Creating_NTA s"
  obtain r s1 where g: "get_tiger_tracts_2020 E ?s0 = (r, s1)"
    by (cases "get_tiger_tracts_2020 E ?s0")
  have "no_new_geojson s s1"
    using nng_get_tiger [of ?s0 E] g by (simp add: nng_print_l)
  then show ?thesis
    using g by (cases r) (simp_all add: get_nta2020_def Let_def nng_print_r)
qed

lemma main_abort_or_steps_ok:
  "(isl (fst (main E a s)) \<and> no_new_geojson s (snd (main E a s))) \<or>
   (\<exists>s' rents cross adj.
      fst (fetch_many_years E (arg_start a) (arg_end a) (arg_census_key a) s') = Inr rents \<and>
      cpi_adjust E (aggregate_to_nta rents cross) (arg_cpi_csv a) 2025 = Inr adj)"
proof -
  obtain r0 s0 where m0: "mkdir_exist_ok ''data'' s = (r0, s0)"
    by (cases "mkdir_exist_ok ''data'' s")
  have n0: "no_new_geojson s s0" using nng_mkdir [of s "''data''"] m0 by simp
  let ?t1 = "print_msg (Step 1) s0"
  obtain r1 s1 where m1: "fetch_many_years E (arg_start a) (arg_end a) (arg_census_key a) ?t1 = (r1, s1)"
    by (cases "fetch_many_years E (arg_start a) (arg_end a) (arg_census_key a) ?t1")
  have n1: "no_new_geojson s s1"
    using fetch_many_years_fs [of E "arg_start a" "arg_end a" "arg_census_key a" ?t1] m1 n0
    by (simp add: no_new_geojson_def print_msg_def)
  show ?thesis
  proof (cases r0)
    case (Inl e)
    then show ?thesis using m0 n0 by (simp add: main_def)
  next
    case a0: (Inr u0)
    show ?thesis
    proof (cases r1)
      case (Inl e)
      then show ?thesis using m0 a0 m1 n1 by (simp add: main_def)
    next
      case a1: (Inr rents)
      let ?t2 = "print_msg (Step 2) (print_msg (Pulled (length rents)) s1)"
      obtain r2 s2 where m2: "get_tiger_tracts_2020 E ?t2 = (r2, s2)"
        by (cases "get_tiger_tracts_2020 E ?t2")
      have n2: "no_new_geojson s s2"
        using nng_get_tiger [of ?t2 E] m2 n1 by (auto simp: nng_print_l intro: nng_trans)
      obtain r3 s3 where m3: "get_nta2020 E s2 = (r3, s3)"
        by (cases "get_nta2020 E s2")
      have n3: "no_new_geojson s s3"
        using nng_get_nta [of s2 E] m3 n2 by (auto intro: nng_trans)
      show ?thesis
      proof (cases r2)
        case (Inl e)
        then show ?thesis using m0 a0 m1 a1 m2 n2 by (simp add: main_def)
      next
        case a2: (Inr tracts)
        show ?thesis
        proof (cases r3)
          case (Inl e)
          then show ?thesis using m0 a0 m1 a1 m2 a2 m3 n3 by (simp add: main_def)
        next
          case a3: (Inr ntas)
          let ?cross = "spatial_join_to_nta E tracts ntas"
          show ?thesis
          proof (cases "cpi_adjust E (aggregate_to_nta rents ?cross) (arg_cpi_csv a) 2025")
            case (Inl e)
            then show ?thesis
              using m0 a0 m1 a1 m2 a2 m3 a3 n3 by (simp add: main_def Let_def nng_print_r)
          next
            case (Inr adj)
            moreover have "fst (fetch_many_years E (arg_start a) (arg_end a) (arg_census_key a) ?t1) = Inr rents"
              using m1 a1 by simp
            ultimately show ?thesis by blast
          qed
        qed
      qed
    qed
  qed
qed


section \<open>The example world\<close>

lemma url19: "census_acs5_url 2019 = ''https://api.census.gov/data/2019/acs/acs5''"
  by (simp add: census_acs5_url_def str_int_def str_nat.simps digit_char_def)
lemma url20: "census_acs5_url 2020 = ''https://api.census.gov/data/2020/acs/acs5''"
  by (simp add: census_acs5_url_def str_int_def str_nat.simps digit_char_def)
lemma url21: "census_acs5_url 2021 = ''https://api.census.gov/data/2021/acs/acs5''"
  by (simp add: census_acs5_url_def str_int_def str_nat.simps digit_char_def)




















lemma adjust_rows_missing:
  "\<exists>r\<in>set df. cpi (a_year r) = None \<Longrightarrow>
   \<exists>r\<in>set df. cpi (a_year r) = None \<and> adjust_rows base cpi df = Inl (KeyError_int (a_year r))"
proof (induction df)
  case Nil
  then show ?case by simp
next
  case (Cons r rs)
  show ?case
  proof (cases "cpi (a_year r)")
    case None
    then show ?thesis by auto
  next
    case (Some c)
    with Cons.prems have "\<exists>r\<in>set rs. cpi (a_year r) = None" by auto
    from Cons.IH [OF this] obtain q where "q \<in> set rs" "cpi (a_year q) = None"
      "adjust_rows base cpi rs = Inl (KeyError_int (a_year q))" by blast
    with Some show ?thesis by auto
  qed
qed

lemma cpi_adjust_base_missing:
  assumes "read_cpi E csv = Inr cpi" and "cpi base_year = None"
  shows "cpi_adjust E df csv base_year =
           Inl (ValueError (''CPI base year '' @ str_int base_year @ '' not in CPI CSV.''))"
  using assms by (simp add: cpi_adjust_def cpi_adjust_series_def)

lemma cpi_adjust_row_missing:
  assumes "read_cpi E csv = Inr cpi" and "\<exists>r\<in>set df. cpi (a_year r) = None"
  shows "isl (cpi_adjust E df csv base_year)"
proof (cases "cpi base_year")
  case None
  then show ?thesis using assms(1) by (simp add: cpi_adjust_base_missing)
next
  case (Some b)
  from adjust_rows_missing [OF assms(2), of b] obtain r :: nta_year
    where "adjust_rows b cpi df = Inl (KeyError_int (a_year r))" by blast
  moreover have "df \<noteq> []" using assms(2) by auto
  ultimately show ?thesis using assms(1) Some by (simp add: cpi_adjust_def cpi_adjust_series_def)
qed

text \<open>
  C2. With the index series read from the CPI file: when the reference year is not in it,
  the normalizer raises the configuration error, whatever the rows; when the year of some
  row is not in it, the normalizer raises (the key error of the first such row when the
  reference year is there), and no row is skipped; and when the pipeline's reference year
  2025 is missing from the file it is given, the run ends in an error and leaves no feature
  collection on disk that was not there before.
\<close>

theorem cpi_misconfiguration_is_fatal:
  assumes "read_cpi E csv = Inr cpi"
  shows "(cpi base_year = None \<longrightarrow>
            cpi_adjust E df csv base_year =
              Inl (ValueError (''CPI base year '' @ str_int base_year @ '' not in CPI CSV.''))) \<and>
         ((\<exists>r\<in>set df. cpi (a_year r) = None) \<longrightarrow> isl (cpi_adjust E df csv base_year)) \<and>
         (cpi base_year \<noteq> None \<and> (\<exists>r\<in>set df. cpi (a_year r) = None) \<longrightarrow>
            (\<exists>r\<in>set df. cpi (a_year r) = None \<and>
               cpi_adjust E df csv base_year = Inl (KeyError_int (a_year r)))) \<and>
         (csv = arg_cpi_csv a \<and> cpi 2025 = None \<longrightarrow>
            isl (fst (main E a s)) \<and> no_new_geojson s (snd (main E a s)))"
proof -
  have key: "\<exists>r\<in>set df. cpi (a_year r) = None \<and>
               cpi_adjust E df csv base_year = Inl (KeyError_int (a_year r))"
    if b: "cpi base_year \<noteq> None" and m: "\<exists>r\<in>set df. cpi (a_year r) = None"
  proof -
    from b obtain bv where bv: "cpi base_year = Some bv" by auto
    from adjust_rows_missing [OF m, of bv] obtain r where
      r: "r \<in> set df" "cpi (a_year r) = None" "adjust_rows bv cpi df = Inl (KeyError_int (a_year r))"
      by blast
    moreover have "df \<noteq> []" using m by auto
    ultimately show ?thesis
      using assms bv by (auto simp: cpi_adjust_def cpi_adjust_series_def)
  qed
  have run: "isl (fst (main E a s)) \<and> no_new_geojson s (snd (main E a s))"
    if "csv = arg_cpi_csv a" and "cpi 2025 = None"
  proof -
    have "isl (cpi_adjust E d (arg_cpi_csv a) 2025)" for d
      using cpi_adjust_base_missing [of E csv cpi 2025 d] assms that by simp
    then show ?thesis
      using main_abort_or_steps_ok [of E a s] by (metis sum.disc(2))
  qed
  show ?thesis
    using cpi_adjust_base_missing [OF assms] cpi_adjust_row_missing [OF assms] key run by blast
qed

lemma str2025: "str_int 2025 = ''2025''"
  by (simp add: str_int_def str_nat.simps digit_char_def)

theorem cpi_misconfiguration_is_fatal_witness:
  "cpi_adjust (ex_env (Inr ex_not_found) (take 3 ex_cpi))
     [\<lparr>a_code = ''A'', a_name = ''Unit A'', a_year = 2018, a_est = Fin 1000\<rparr>] ''data/cpi.csv'' 2025 =
     Inl (ValueError ''CPI base year 2025 not in CPI CSV.'') \<and>
   isl (cpi_adjust (ex_env (Inr ex_not_found) (take 3 ex_cpi))
     [\<lparr>a_code = ''A'', a_name = ''Unit A'', a_year = 2018, a_est = Fin 1000\<rparr>] ''data/cpi.csv'' 2025) \<and>
   isl (fst (main (ex_env (Inr ex_not_found) (take 3 ex_cpi)) ex_args init_state)) \<and>
   no_new_geojson init_state (snd (main (ex_env (Inr ex_not_found) (take 3 ex_cpi)) ex_args init_state))"
  using cpi_misconfiguration_is_fatal [of "ex_env (Inr ex_not_found) (take 3 ex_cpi)" "''data/cpi.csv''"
      "map_of (take 3 ex_cpi)" 2025
      "[\<lparr>a_code = ''A'', a_name = ''Unit A'', a_year = 2018, a_est = Fin 1000\<rparr>]" ex_args init_state]
  by (simp add: ex_env_def ex_cpi_def ex_args_def str2025)



lemma f_div_self: "x \<noteq> 0 \<Longrightarrow> f_div (Fin x) (Fin x) = Fin 1"
  by simp




lemma merge_left_blocks: "merge_left rents cross = concat (map (\<lambda>r. merge_block r cross) rents)"
  by (simp add: merge_left_def merge_block_def)

lemma block_matched:
  "filter (\<lambda>j. j_nta_code j \<noteq> None) (merge_block r cross) =
     filter (\<lambda>j. j_nta_code j \<noteq> None)
       (map (\<lambda>c. \<lparr>j_geoid = r_geoid r, j_year = r_year r, j_est = r_est r,
                   j_nta_code = c_nta_code c, j_nta_name = c_nta_name c\<rparr>)
            (filter (\<lambda>c. r_geoid r = Some (c_GEOID c)) cross))"
  by (simp add: merge_block_def split: list.splits)

lemma block_values:
  "map j_est (filter (\<lambda>j. (j_nta_code j, j_nta_name j, j_year j) = (Some c, Some n, y))
     (filter (\<lambda>j. j_nta_code j \<noteq> None) (merge_block r cross))) =
   concat (map (\<lambda>x. if r_geoid r = Some (c_GEOID x) \<and> c_nta_code x = Some c \<and>
                        c_nta_name x = Some n \<and> r_year r = y then [r_est r] else []) cross)"
  unfolding block_matched by (induction cross) auto

lemma values_of_blocks:
  "map f (filter P (filter Q (concat (map B rs)))) =
     concat (map (\<lambda>r. map f (filter P (filter Q (B r)))) rs)"
  by (induction rs) simp_all

lemma group_values_contributing:
  "group_values (dropna_nta_code (merge_left rents cross)) k = contributing rents cross k"
proof -
  obtain c n y where k: "k = (c, n, y)" by (cases k) auto
  have "group_values (dropna_nta_code (merge_left rents cross)) (c, n, y) =
          concat (map (\<lambda>r. map j_est
            (filter (\<lambda>j. (j_nta_code j, j_nta_name j, j_year j) = (Some c, Some n, y))
               (filter (\<lambda>j. j_nta_code j \<noteq> None) (merge_block r cross)))) rents)"
    unfolding merge_left_blocks group_values_def dropna_nta_code_def fst_conv snd_conv
    by (rule values_of_blocks)
  also have "\<dots> = contributing rents cross (c, n, y)"
    unfolding block_values contributing_def fst_conv snd_conv ..
  finally show ?thesis using k by simp
qed

lemma group_values_nonempty:
  "group_values df (c, n, y) \<noteq> [] \<longleftrightarrow>
     (\<exists>j\<in>set df. j_nta_code j = Some c \<and> j_nta_name j = Some n \<and> j_year j = y)"
  by (auto simp: group_values_def filter_empty_conv)

lemma set_group_keys: "set (group_keys df) = {k. group_values df k \<noteq> []}"
proof -
  have "k \<in> set (group_keys df) \<longleftrightarrow> group_values df k \<noteq> []" for k
  proof -
    obtain c n y where k: "k = (c, n, y)" by (cases k) auto
    have "(c, n, y) \<in> set (group_keys df) \<longleftrightarrow>
            (\<exists>j\<in>set df. j_nta_code j = Some c \<and> j_nta_name j = Some n \<and> j_year j = y)"
      by (force simp: group_keys_def split: option.splits)
    then show ?thesis using k group_values_nonempty [of df c n y] by simp
  qed
  then show ?thesis by auto
qed

lemma distinct_group_keys: "distinct (group_keys df)"
  by (simp add: group_keys_def)

lemma aggregate_keys:
  "map nta_key (aggregate_to_nta rents cross) =
     group_keys (dropna_nta_code (merge_left rents cross))"
  by (simp add: aggregate_to_nta_def groupby_median_def nta_key_def comp_def)

lemma aggregate_est:
  assumes "g \<in> set (aggregate_to_nta rents cross)"
  shows "a_est g = pd_median (contributing rents cross (nta_key g))"
  using assms
  by (auto simp: aggregate_to_nta_def groupby_median_def nta_key_def group_values_contributing)

lemma pd_median_all_null: "\<forall>v\<in>set vs. v = NaN \<Longrightarrow> pd_median vs = NaN"
  by (simp add: pd_median_def filter_empty_conv [THEN iffD2])

text \<open>
  C3, as the code has it. The unit-year table has exactly one row for every key (unit
  code, unit name, year) to which some record contributes; where all the contributing
  estimates are null, the row is there and its value is null.
\<close>

theorem all_null_group_keeps_its_row:
  "distinct (map nta_key (aggregate_to_nta rents cross)) \<and>
   set (map nta_key (aggregate_to_nta rents cross)) = {k. contributing rents cross k \<noteq> []} \<and>
   (\<forall>g\<in>set (aggregate_to_nta rents cross).
      (\<forall>v\<in>set (contributing rents cross (nta_key g)). v = NaN) \<longrightarrow> a_est g = NaN)"
proof -
  have "distinct (map nta_key (aggregate_to_nta rents cross))"
    unfolding aggregate_keys by (rule distinct_group_keys)
  moreover have "set (map nta_key (aggregate_to_nta rents cross)) =
                   {k. contributing rents cross k \<noteq> []}"
    unfolding aggregate_keys set_group_keys group_values_contributing ..
  moreover have "a_est g = NaN"
    if "g \<in> set (aggregate_to_nta rents cross)"
      and "\<forall>v\<in>set (contributing rents cross (nta_key g)). v = NaN" for g
    using aggregate_est [OF that(1)] pd_median_all_null [OF that(2)] by simp
  ultimately show ?thesis by blast
qed

lemma ex_aggregate:
  "aggregate_to_nta (ex_rents v1 v2 v3) ex_cross =
     [\<lparr>a_code = ''BX01'', a_name = ''Mott Haven'', a_year = 2020, a_est = pd_median [v1, v2, v3]\<rparr>]"
  by (simp add: aggregate_to_nta_def groupby_median_def group_keys_def group_values_def
      dropna_nta_code_def merge_left_def ex_rents_def ex_cross_def)

theorem all_null_group_keeps_its_row_witness:
  "map nta_key (aggregate_to_nta (ex_rents NaN NaN NaN) ex_cross) = [(''BX01'', ''Mott Haven'', 2020)] \<and>
   map a_est (aggregate_to_nta (ex_rents NaN NaN NaN) ex_cross) = [NaN]"
  using all_null_group_keeps_its_row [of "ex_rents NaN NaN NaN" ex_cross]
  by (simp add: ex_aggregate nta_key_def pd_median_def)

theorem all_null_group_is_not_dropped:
  "aggregate_to_nta
     [\<lparr>r_geoid = Some ''36005000100'', r_year = 2020, r_est = NaN\<rparr>]
     [\<lparr>c_GEOID = ''36005000100'', c_nta_code = Some ''BX01'', c_nta_name = Some ''Mott Haven''\<rparr>] =
   [\<lparr>a_code = ''BX01'', a_name = ''Mott Haven'', a_year = 2020, a_est = NaN\<rparr>]"
  by (simp add: aggregate_to_nta_def groupby_median_def group_keys_def group_values_def
      dropna_nta_code_def merge_left_def pd_median_def)

lemma set_drop_dups: "set (drop_dups seen xs) = set xs - set seen"
  by (induction xs arbitrary: seen) auto



lemma set_drop_duplicates: "set (drop_duplicates xs) = set xs"
  by (simp add: drop_duplicates_def set_drop_dups)



lemma sjoin_block_eq:
  "(case ms of
      [] \<Rightarrow> [\<lparr>c_GEOID = t_GEOID (t\<lparr>t_geometry := x\<rparr>), c_nta_code = None, c_nta_name = None\<rparr>]
    | a # list \<Rightarrow> map (\<lambda>n. \<lparr>c_GEOID = t_GEOID (t\<lparr>t_geometry := x\<rparr>),
                               c_nta_code = Some (n_code n), c_nta_name = Some (n_name n)\<rparr>) (a # list)) =
   sjoin_block (t_GEOID t) ms"
  by (simp add: sjoin_block_def split: list.splits)

lemma sjoin_blocks:
  "sjoin_left_within E (rows (to_crs_tracts E (crs ntas) tracts)) (rows ntas) =
     concat (map (\<lambda>t. sjoin_block (t_GEOID t) (matches E tracts ntas t)) (rows tracts))"
  by (simp add: sjoin_left_within_def to_crs_tracts_def matches_def comp_def sjoin_block_eq)

lemma spatial_join_blocks:
  "spatial_join_to_nta E tracts ntas =
     drop_duplicates (concat (map (\<lambda>t. sjoin_block (t_GEOID t) (matches E tracts ntas t)) (rows tracts)))"
  by (simp add: spatial_join_to_nta_def Let_def sjoin_blocks)

lemma set_spatial_join:
  "set (spatial_join_to_nta E tracts ntas) =
     (\<Union>t\<in>set (rows tracts). set (sjoin_block (t_GEOID t) (matches E tracts ntas t)))"
  by (simp add: spatial_join_blocks set_drop_duplicates)

lemma sjoin_block_GEOID: "x \<in> set (sjoin_block g ms) \<Longrightarrow> c_GEOID x = g"
  by (auto simp: sjoin_block_def split: list.splits)

lemma sjoin_block_Nil: "sjoin_block g [] = [\<lparr>c_GEOID = g, c_nta_code = None, c_nta_name = None\<rparr>]"
  by (simp add: sjoin_block_def)

lemma group_keys_sorted: "sorted (group_keys df)"
  by (simp add: group_keys_def)

lemma group_keys_determined:
  assumes "\<And>k. (group_values df k = []) = (group_values df' k = [])"
  shows "group_keys df = group_keys df'"
proof (rule sorted_distinct_set_unique)
  show "set (group_keys df) = set (group_keys df')"
    using assms by (simp add: set_group_keys)
qed (simp_all add: group_keys_sorted distinct_group_keys)

lemma aggregate_determined:
  assumes "\<And>k. contributing rents cross k = contributing rents' cross' k"
  shows "aggregate_to_nta rents cross = aggregate_to_nta rents' cross'"
proof -
  let ?df = "dropna_nta_code (merge_left rents cross)"
  let ?df' = "dropna_nta_code (merge_left rents' cross')"
  have v: "group_values ?df k = group_values ?df' k" for k
    using assms by (simp add: group_values_contributing)
  then have "group_keys ?df = group_keys ?df'"
    by (intro group_keys_determined) simp
  then show ?thesis
    by (simp add: aggregate_to_nta_def groupby_median_def v)
qed

lemma contributing_without_unmapped:
  assumes "\<forall>x\<in>set cross. c_GEOID x = g \<longrightarrow> c_nta_code x = None"
  shows "contributing (filter (\<lambda>r. r_geoid r \<noteq> Some g) rents) cross k = contributing rents cross k"
proof (induction rents)
  case Nil
  then show ?case by (simp add: contributing_def)
next
  case (Cons r rs)
  have "concat (map (\<lambda>x. if r_geoid r = Some (c_GEOID x) \<and> c_nta_code x = Some (fst k) \<and>
             c_nta_name x = Some (fst (snd k)) \<and> r_year r = snd (snd k)
          then [r_est r] else []) cross) = []" if "r_geoid r = Some g"
    using that assms by auto
  with Cons show ?case by (auto simp: contributing_def)
qed

text \<open>
  C4, as the code has it. The join keeps every tract row (a left join): a tract identifier
  none of whose polygons lies within a unit polygon is in the crosswalk, in a row whose
  unit code and name are null, and in no other row. The aggregation then discards the
  records of that tract: the unit-year table is the one computed without them.
\<close>

theorem unmatched_tract_has_null_row:
  assumes "g \<in> t_GEOID ` set (rows tracts)"
    and "\<forall>t\<in>set (rows tracts). t_GEOID t = g \<longrightarrow> matches E tracts ntas t = []"
  shows "\<lparr>c_GEOID = g, c_nta_code = None, c_nta_name = None\<rparr> \<in> set (spatial_join_to_nta E tracts ntas) \<and>
         (\<forall>x\<in>set (spatial_join_to_nta E tracts ntas).
            c_GEOID x = g \<longrightarrow> c_nta_code x = None \<and> c_nta_name x = None) \<and>
         aggregate_to_nta rents (spatial_join_to_nta E tracts ntas) =
           aggregate_to_nta (filter (\<lambda>r. r_geoid r \<noteq> Some g) rents) (spatial_join_to_nta E tracts ntas)"
proof -
  let ?cross = "spatial_join_to_nta E tracts ntas"
  from assms(1) obtain t where t: "t \<in> set (rows tracts)" "t_GEOID t = g" by auto
  with assms(2) have "matches E tracts ntas t = []" by simp
  with t have present: "\<lparr>c_GEOID = g, c_nta_code = None, c_nta_name = None\<rparr> \<in> set ?cross"
    by (force simp: set_spatial_join sjoin_block_Nil)
  have null: "c_nta_code x = None \<and> c_nta_name x = None" if "x \<in> set ?cross" and "c_GEOID x = g" for x
  proof -
    from that(1) obtain u where u: "u \<in> set (rows tracts)"
      "x \<in> set (sjoin_block (t_GEOID u) (matches E tracts ntas u))"
      by (auto simp: set_spatial_join)
    then have "t_GEOID u = g" using sjoin_block_GEOID that(2) by fastforce
    with assms(2) u(1) have "matches E tracts ntas u = []" by simp
    with u(2) show ?thesis by (simp add: sjoin_block_Nil)
  qed
  have "aggregate_to_nta rents ?cross = aggregate_to_nta (filter (\<lambda>r. r_geoid r \<noteq> Some g) rents) ?cross"
    by (rule aggregate_determined) (simp add: contributing_without_unmapped null)
  with present null show ?thesis by blast
qed

lemma ex_spatial_join:
  "spatial_join_to_nta (ex_env mid cpi) ex_tracts ex_ntas =
     [\<lparr>c_GEOID = ''36005000100'', c_nta_code = Some ''BX01'', c_nta_name = Some ''Mott Haven''\<rparr>,
      \<lparr>c_GEOID = ''36005000400'', c_nta_code = None, c_nta_name = None\<rparr>]"
  by (simp add: spatial_join_to_nta_def to_crs_tracts_def sjoin_left_within_def drop_duplicates_def
      ex_env_def ex_identity_def ex_tracts_def ex_ntas_def)

theorem unmatched_tract_has_null_row_witness:
  "\<lparr>c_GEOID = ''36005000400'', c_nta_code = None, c_nta_name = None\<rparr>
     \<in> set (spatial_join_to_nta (ex_env (Inr ex_not_found) ex_cpi) ex_tracts ex_ntas) \<and>
   aggregate_to_nta (ex_rents (Fin 1000) (Fin 1200) (Fin 1400))
       (spatial_join_to_nta (ex_env (Inr ex_not_found) ex_cpi) ex_tracts ex_ntas) =
     aggregate_to_nta (filter (\<lambda>r. r_geoid r \<noteq> Some ''36005000400'') (ex_rents (Fin 1000) (Fin 1200) (Fin 1400)))
       (spatial_join_to_nta (ex_env (Inr ex_not_found) ex_cpi) ex_tracts ex_ntas)"
  using unmatched_tract_has_null_row [of "''36005000400''" ex_tracts "ex_env (Inr ex_not_found) ex_cpi" ex_ntas
      "ex_rents (Fin 1000) (Fin 1200) (Fin 1400)"]
  by (simp add: ex_tracts_def ex_ntas_def matches_def ex_env_def ex_identity_def)

theorem unmatched_tract_stays_in_crosswalk:
  "spatial_join_to_nta (ex_env (Inr ex_not_found) ex_cpi) ex_tracts ex_ntas =
     [\<lparr>c_GEOID = ''36005000100'', c_nta_code = Some ''BX01'', c_nta_name = Some ''Mott Haven''\<rparr>,
      \<lparr>c_GEOID = ''36005000400'', c_nta_code = None, c_nta_name = None\<rparr>]"
  by (rule ex_spatial_join)






lemma get_tiger_cached:
  assumes "fs s tiger_ddir \<noteq> None"
  shows "get_tiger_tracts_2020 E s = (read_tracts s, s)"
proof -
  from assms obtain nd where "fs s tiger_ddir = Some nd" by auto
  then show ?thesis by (simp add: get_tiger_tracts_2020_def)
qed

lemma extract_zip_creates:
  "extract_zip z d s = (Inr u, s2) \<Longrightarrow> fs s2 d \<noteq> None"
  by (auto simp: extract_zip_def split: option.splits node.splits)

lemma get_tiger_leaves_directory:
  assumes "get_tiger_tracts_2020 E s = (Inr g, s1)"
  shows "fs s1 tiger_ddir \<noteq> None \<and> read_tracts s1 = Inr g"
proof (cases "fs s tiger_ddir = None")
  case False
  with assms get_tiger_cached [of s E] show ?thesis by auto
next
  case True
  let ?s0 = "print_msg Downloading_TIGER s"
  obtain r1 t1 where d: "download_zip E tiger_url tiger_zpath ?s0 = (r1, t1)"
    by (cases "download_zip E tiger_url tiger_zpath ?s0")
  obtain r2 t2 where x: "extract_zip tiger_zpath tiger_ddir t1 = (r2, t2)"
    by (cases "extract_zip tiger_zpath tiger_ddir t1")
  from assms True d x obtain u1 u2 where ok: "r1 = Inr u1" "r2 = Inr u2"
    by (cases r1; cases r2) (simp_all add: get_tiger_tracts_2020_def)
  with assms True d x have "s1 = t2" "read_tracts t2 = Inr g"
    by (auto simp add: get_tiger_tracts_2020_def)
  moreover have "fs t2 tiger_ddir \<noteq> None"
    using x ok extract_zip_creates by fastforce
  ultimately show ?thesis by simp
qed

text \<open>
  C10. When the extracted directory exists, the geometry loader changes nothing (no request
  is sent, no file is written, nothing is printed) and returns what reading the directory
  gives. So a second call after a call that returned a polygon set returns the same polygon
  set and leaves the state as the first call left it.
\<close>

theorem second_load_reuses_directory:
  "(fs s tiger_ddir \<noteq> None \<longrightarrow> get_tiger_tracts_2020 E s = (read_tracts s, s)) \<and>
   (get_tiger_tracts_2020 E s = (Inr g, s1) \<longrightarrow> get_tiger_tracts_2020 E s1 = (Inr g, s1))"
proof -
  have "get_tiger_tracts_2020 E s1 = (Inr g, s1)" if "get_tiger_tracts_2020 E s = (Inr g, s1)"
    using get_tiger_leaves_directory [OF that] get_tiger_cached [of s1 E] by simp
  then show ?thesis using get_tiger_cached [of s E] by blast
qed

lemma ex_first_load:
  "get_tiger_tracts_2020 (ex_env mid cpi) init_state =
     (Inr \<lparr>crs = ''EPSG:4269'', rows = [\<lparr>t_GEOID = ''36005000100'', t_geometry = 1\<rparr>]\<rparr>,
      \<lparr>fs = [''data'' \<mapsto> Dir [], tiger_dir \<mapsto> Dir [], tiger_zpath \<mapsto> ZipFile (Some [ex_shapefile]),
             tiger_ddir \<mapsto> Dir [ex_shapefile]],
       stdout = [Downloading_TIGER], requested = [tiger_url]\<rparr>)"
  by (simp add: get_tiger_tracts_2020_def init_state_def print_msg_def download_zip_def
      mkdir_exist_ok_def requests_get_def raise_for_status_def extract_zip_def read_tracts_def
      glob_shp_def ex_env_def ex_http_def ex_tiger_def ex_shapefile_def url19 url20 url21
      tiger_url_def tiger_dir_def tiger_zpath_def tiger_ddir_def STATE_FIPS_def NYC_COUNTIES_def)

theorem second_load_reuses_directory_witness:
  "get_tiger_tracts_2020 (ex_env (Inr ex_not_found) ex_cpi)
     (snd (get_tiger_tracts_2020 (ex_env (Inr ex_not_found) ex_cpi) init_state)) =
   (Inr \<lparr>crs = ''EPSG:4269'', rows = [\<lparr>t_GEOID = ''36005000100'', t_geometry = 1\<rparr>]\<rparr>,
    snd (get_tiger_tracts_2020 (ex_env (Inr ex_not_found) ex_cpi) init_state)) \<and>
   requested (snd (get_tiger_tracts_2020 (ex_env (Inr ex_not_found) ex_cpi) init_state)) = [tiger_url]"
  using second_load_reuses_directory [of
      "snd (get_tiger_tracts_2020 (ex_env (Inr ex_not_found) ex_cpi) init_state)"
      "ex_env (Inr ex_not_found) ex_cpi"]
    second_load_reuses_directory [of init_state "ex_env (Inr ex_not_found) ex_cpi"
      "\<lparr>crs = ''EPSG:4269'', rows = [\<lparr>t_GEOID = ''36005000100'', t_geometry = 1\<rparr>]\<rparr>"
      "snd (get_tiger_tracts_2020 (ex_env (Inr ex_not_found) ex_cpi) init_state)"]
  by (simp add: ex_first_load)

end
